theory Spec2Isabelle
  imports Main "HOL-Library.AList" "HOL-Library.Sublist"
begin

section \<open>Data model\<close>

text \<open>
  Exceptions of the notebooks, as values. \<open>ClientError m s\<close> is botocore's ClientError:
  \<open>m\<close> is the \<open>Error.Message\<close> entry of \<open>e.response\<close> when that dictionary has an
  \<open>Error\<close> key, \<open>s\<close> is \<open>str(e)\<close>. \<open>OtherError s\<close> is any other exception raised by a
  client library (it has no \<open>response\<close> attribute), with \<open>s = str(e)\<close>.
\<close>

datatype error =
    RuntimeError string
  | KeyError string
  | IndexError string
  | AttributeError string
  | ClientError "string option" string
  | OtherError string

fun str_of_error :: "error \<Rightarrow> string" where
  "str_of_error (RuntimeError m) = m"
| "str_of_error (KeyError k) = [CHR 0x27] @ k @ [CHR 0x27]"
| "str_of_error (IndexError m) = m"
| "str_of_error (AttributeError a) = a"
| "str_of_error (ClientError m s) = s"
| "str_of_error (OtherError s) = s"

text \<open>JSON-like Python values; a dict is an association list in insertion order.\<close>

datatype json =
    JStr string
  | JInt int
  | JList "json list"
  | JDict "(string \<times> json) list"

text \<open>
  The response of \<open>get_async_invoke\<close> is a dictionary; only the entries the code reads
  are kept, each absent (\<open>None\<close>) or present. \<open>s3Uri\<close> stands for the nested entry
  \<open>response["outputDataConfig"]["s3OutputDataConfig"]["s3Uri"]\<close>, \<open>submitTime\<close> for the
  text that the f-string prints for it.
\<close>

record async_invoke_status =
  status :: "string option"
  s3Uri :: "string option"
  submitTime :: "string option"
  failureMessage :: "string option"

text \<open>The response of \<open>start_async_invoke\<close>.\<close>

record invocation =
  invocationArn :: "string option"

text \<open>
  An embedding is a list of floats that the code only passes on, never computes with;
  each float is carried as an opaque integer code.
\<close>

type_synonym vector = "int list"

record embed_body =
  inputImage :: "string option"
  inputText :: "string option"
  outputEmbeddingLength :: int

text \<open>The parsed body of the embedding model's response: its \<open>embedding\<close> entry.\<close>

record embed_response =
  embedding :: "vector option"

record oss_client =
  host :: string
  port :: int
  region :: string

text \<open>
  The k-NN query body: \<open>size\<close> (here \<open>query_size\<close>), the \<open>_source.exclude\<close> list, and under
  \<open>query.knn.image_vector\<close> the \<open>vector\<close> and \<open>k\<close>.
\<close>

record knn_query =
  query_size :: int
  source_exclude :: "string list"
  knn_vector :: vector
  knn_k :: int

text \<open>
  A search hit: its \<open>_source\<close> document (absent or a dict of text fields). The search
  response: its \<open>hits.hits\<close> list (absent or present).
\<close>

record hit =
  source_doc :: "(string \<times> string) list option"

record search_response =
  hits :: "hit list option"

text \<open>
  Calls on the outside world (and console output), in the order they are made, with
  their arguments.
\<close>

datatype event =
    is_ResizeAndEncode: ResizeAndEncode string
  | is_InvokeModel: InvokeModel string embed_body
  | is_Search: Search oss_client string knn_query
  | is_GetObject: GetObject string string
  | is_StartAsyncInvoke: StartAsyncInvoke string json string
  | is_GetAsyncInvoke: GetAsyncInvoke string
  | is_Sleep: Sleep nat
  | is_Print: Print string

definition calls :: "(event \<Rightarrow> bool) \<Rightarrow> event list \<Rightarrow> nat" where
  "calls P t = length (filter P t)"

text \<open>
  The outside world: for each service operation, what its n-th call (counted from 0
  over the whole run) answers, an exception or a response. The program is deterministic,
  so the arguments of the n-th call are fixed by the earlier answers.
\<close>

record world =
  resize_and_encode :: "nat \<Rightarrow> error + string"
  invoke_model :: "nat \<Rightarrow> error + embed_response"
  oss_search :: "nat \<Rightarrow> error + search_response"
  s3_get_object :: "nat \<Rightarrow> error + string"
  start_async_invoke :: "nat \<Rightarrow> error + invocation"
  get_async_invoke :: "nat \<Rightarrow> error + async_invoke_status"

text \<open>Variables restored by \<open>%store -r\<close>, and the globals of the inpainting notebook.\<close>

record globals =
  COLLECTION_ENDPOINT :: string
  REGION :: string
  INDEX_NAME :: string
  BUCKET :: string


section \<open>Python string helpers\<close>

fun split_on :: "char \<Rightarrow> string \<Rightarrow> string list" where
  "split_on c [] = [[]]"
| "split_on c (x # xs) =
     (if x = c then [] # split_on c xs
      else (case split_on c xs of [] \<Rightarrow> [[x]] | u # us \<Rightarrow> (x # u) # us))"

fun join :: "string \<Rightarrow> string list \<Rightarrow> string" where
  "join sep [] = []"
| "join sep [x] = x"
| "join sep (x # y # ys) = x @ sep @ join sep (y # ys)"



section \<open>Building the model input\<close>

text \<open>\<open>build_model_input\<close> of the text-and-image notebook.\<close>

definition build_model_input ::
  "string \<Rightarrow> string option \<Rightarrow> int \<Rightarrow> int \<Rightarrow> string \<Rightarrow> int \<Rightarrow> json" where
  "build_model_input prompt image_base64 duration fps resolution seed =
     (let image_parameter =
            (case image_base64 of
               None \<Rightarrow> []
             | Some b \<Rightarrow>
                 if b \<noteq> [] then
                   [JDict [(''format'', JStr ''png''),
                           (''source'', JDict [(''bytes'', JStr b)])]]
                 else [])
      in JDict
           [(''taskType'', JStr ''TEXT_VIDEO''),
            (''textToVideoParams'',
               JDict [(''text'', JStr prompt), (''images'', JList image_parameter)]),
            (''videoGenerationConfig'',
               JDict [(''durationSeconds'', JInt duration),
                      (''fps'', JInt fps),
                      (''dimension'', JStr resolution),
                      (''seed'', JInt seed)])])"

text \<open>
  \<open>output[k1][k2] = v\<close> on a dict of dicts; a missing \<open>k1\<close>, or a value under it that
  is no dict, leaves no result (the literal below always has it).
\<close>

definition set_nested ::
  "string \<Rightarrow> string \<Rightarrow> json \<Rightarrow> (string \<times> json) list \<Rightarrow> (string \<times> json) list option" where
  "set_nested k1 k2 v output =
     (case map_of output k1 of
        Some (JDict inner) \<Rightarrow> Some (AList.update k1 (JDict (AList.update k2 v inner)) output)
      | _ \<Rightarrow> None)"

text \<open>\<open>build_model_input\<close> of the text-only notebook (embedded in the template file).\<close>

definition build_model_input_text_only ::
  "string \<Rightarrow> string option \<Rightarrow> int \<Rightarrow> int \<Rightarrow> string \<Rightarrow> int \<Rightarrow> json" where
  "build_model_input_text_only prompt image_base64 duration fps resolution seed =
     (let output =
            [(''taskType'', JStr ''TEXT_VIDEO''),
             (''textToVideoParams'', JDict [(''text'', JStr prompt)]),
             (''videoGenerationConfig'',
                JDict [(''durationSeconds'', JInt duration),
                       (''fps'', JInt fps),
                       (''dimension'', JStr resolution),
                       (''seed'', JInt seed)])]
      in case image_base64 of
           None \<Rightarrow> JDict output
         | Some b \<Rightarrow>
             if b \<noteq> [] then
               (case set_nested ''textToVideoParams'' ''images''
                       (JList [JDict [(''format'', JStr ''png''),
                                      (''source'', JDict [(''bytes'', JStr b)])]]) output of
                  Some output' \<Rightarrow> JDict output'
                | None \<Rightarrow> JDict output)
             else JDict output)"

text \<open>Reading a dict entry (\<open>None\<close> when the value is no dict or lacks the key).\<close>

fun lookup :: "json \<Rightarrow> string \<Rightarrow> json option" where
  "lookup (JDict d) k = map_of d k"
| "lookup _ k = None"

section \<open>Starting a job\<close>

text \<open>
  The handler reads \<open>e.response\<close>: for an exception that is no ClientError this raises
  AttributeError in place of the original exception, before anything is printed.
\<close>

definition start_video_generation ::
  "world \<Rightarrow> string \<Rightarrow> json \<Rightarrow> event list \<Rightarrow> (error + invocation) \<times> event list" where
  "start_video_generation w bucket model_input t =
     (let t1 = t @ [StartAsyncInvoke ''amazon.nova-reel-v1:0'' model_input (''s3://'' @ bucket)]
      in case start_async_invoke w (calls is_StartAsyncInvoke t) of
           Inr invoc \<Rightarrow> (Inr invoc, t1 @ [Print ''Video generation job started successfully.''])
         | Inl e \<Rightarrow>
             (case e of
                ClientError m s \<Rightarrow>
                  (Inl e, t1 @ [Print (''Error starting video generation: ''
                                        @ (case m of Some error_message \<Rightarrow> error_message
                                                   | None \<Rightarrow> s))])
              | _ \<Rightarrow> (Inl (AttributeError ''response''), t1)))"

section \<open>Job monitor\<close>

partial_function (option) monitor_loop ::
  "world \<Rightarrow> string \<Rightarrow> string \<Rightarrow> event list \<Rightarrow> ((error + string option) \<times> event list) option"
where
  "monitor_loop w invocation_arn st t =
     (if st \<in> set [''Completed'', ''Failed''] then Some (Inr None, t)
      else
        (case get_async_invoke w (calls is_GetAsyncInvoke t) of
           Inl e \<Rightarrow> Some (Inl e, t @ [GetAsyncInvoke invocation_arn])
         | Inr response \<Rightarrow>
             (let t1 = t @ [GetAsyncInvoke invocation_arn] in
              case status response of
                None \<Rightarrow> Some (Inl (KeyError ''status''), t1)
              | Some st' \<Rightarrow>
                  if st' = ''Completed'' then
                    (case s3Uri response of
                       None \<Rightarrow> Some (Inl (KeyError ''s3Uri''), t1)
                     | Some s3_uri \<Rightarrow>
                         Some (Inr (Some (s3_uri @ ''/output.mp4'')),
                               t1 @ [Print (''Video generation completed. Video available at: ''
                                             @ s3_uri @ ''/output.mp4'')]))
                  else if st' = ''InProgress'' then
                    (case submitTime response of
                       None \<Rightarrow> Some (Inl (KeyError ''submitTime''), t1)
                     | Some tm \<Rightarrow>
                         monitor_loop w invocation_arn st'
                           (t1 @ [Print (''Job '' @ invocation_arn
                                          @ '' is in progress. Started at: '' @ tm),
                                  Sleep 60]))
                  else if st' = ''Failed'' then
                    (case failureMessage response of
                       None \<Rightarrow> Some (Inl (KeyError ''failureMessage''), t1)
                     | Some m \<Rightarrow>
                         Some (Inl (RuntimeError ''Video generation failed.''),
                               t1 @ [Print (''Job '' @ invocation_arn
                                             @ '' failed. Reason: '' @ m)]))
                  else monitor_loop w invocation_arn st' (t1 @ [Sleep 60]))))"

definition monitor_video_generation ::
  "world \<Rightarrow> string \<Rightarrow> event list \<Rightarrow> ((error + string option) \<times> event list) option" where
  "monitor_video_generation w invocation_arn t = monitor_loop w invocation_arn ''InProgress'' t"

section \<open>Vector search\<close>

definition get_titan_multimodal_embedding ::
  "world \<Rightarrow> string option \<Rightarrow> string option \<Rightarrow> int \<Rightarrow> event list
    \<Rightarrow> (error + embed_response) \<times> event list" where
  "get_titan_multimodal_embedding w image_path description dimension t =
     (let img =
            (case image_path of
               None \<Rightarrow> (Inr None, t)
             | Some path \<Rightarrow>
                 if path \<noteq> [] then
                   (case resize_and_encode w (calls is_ResizeAndEncode t) of
                      Inl e \<Rightarrow> (Inl e, t @ [ResizeAndEncode path])
                    | Inr b \<Rightarrow> (Inr (Some b), t @ [ResizeAndEncode path]))
                 else (Inr None, t))
      in case img of
           (Inl e, t1) \<Rightarrow> (Inl e, t1)
         | (Inr input_image, t1) \<Rightarrow>
             (let input_text =
                    (case description of
                       None \<Rightarrow> None
                     | Some d \<Rightarrow> if d \<noteq> [] then Some d else None);
                  body = \<lparr>inputImage = input_image, inputText = input_text,
                          outputEmbeddingLength = dimension\<rparr>;
                  t2 = t1 @ [InvokeModel ''amazon.titan-embed-image-v1'' body]
              in case invoke_model w (calls is_InvokeModel t1) of
                   Inl e \<Rightarrow> (Inl e, t2)
                 | Inr response \<Rightarrow> (Inr response, t2)))"

definition get_oss_client :: "string \<Rightarrow> string \<Rightarrow> oss_client" where
  "get_oss_client collection_endpoint rgn =
     \<lparr>host = collection_endpoint, port = 443, region = rgn\<rparr>"

definition query_open_search ::
  "world \<Rightarrow> oss_client \<Rightarrow> string \<Rightarrow> string \<Rightarrow> int \<Rightarrow> event list
    \<Rightarrow> (error + hit list) \<times> event list" where
  "query_open_search w client index_name prompt top_k t =
     (case get_titan_multimodal_embedding w None (Some prompt) 1024 t of
        (Inl e, t1) \<Rightarrow> (Inl e, t1)
      | (Inr emb, t1) \<Rightarrow>
          (case embedding emb of
             None \<Rightarrow> (Inl (KeyError ''embedding''), t1)
           | Some query_emb \<Rightarrow>
               (let query_body = \<lparr>query_size = top_k, source_exclude = [''image_vector''],
                                   knn_vector = query_emb, knn_k = top_k\<rparr>;
                    t2 = t1 @ [Search client index_name query_body]
                in case oss_search w (calls is_Search t1) of
                     Inl e \<Rightarrow> (Inl e, t2)
                   | Inr response \<Rightarrow>
                       (case hits response of
                          None \<Rightarrow> (Inl (KeyError ''hits''), t2)
                        | Some hs \<Rightarrow> (Inr hs, t2)))))"

section \<open>Retrieval-augmented generation\<close>

definition read_s3_text ::
  "world \<Rightarrow> string \<Rightarrow> string \<Rightarrow> event list \<Rightarrow> string option \<times> event list" where
  "read_s3_text w bucket_name file_key t =
     (case s3_get_object w (calls is_GetObject t) of
        Inr text_content \<Rightarrow> (Some text_content, t @ [GetObject bucket_name file_key])
      | Inl e \<Rightarrow>
          (None, t @ [GetObject bucket_name file_key,
                      Print (''Error reading file from S3: '' @ str_of_error e)]))"

text \<open>
  \<open>"/".join(results[0]['_source']['image_base64_s3_uri'].split('/')[3:])\<close>.
\<close>

definition file_key_of :: "hit list \<Rightarrow> error + string" where
  "file_key_of results =
     (case results of
        [] \<Rightarrow> Inl (IndexError ''list index out of range'')
      | r # _ \<Rightarrow>
          (case source_doc r of
             None \<Rightarrow> Inl (KeyError ''_source'')
           | Some src \<Rightarrow>
               (case map_of src ''image_base64_s3_uri'' of
                  None \<Rightarrow> Inl (KeyError ''image_base64_s3_uri'')
                | Some uri \<Rightarrow> Inr (join ''/'' (drop 3 (split_on CHR ''/'' uri))))))"

definition vrag ::
  "globals \<Rightarrow> world \<Rightarrow> string \<Rightarrow> string \<Rightarrow> event list
    \<Rightarrow> ((error + string option) \<times> event list) option" where
  "vrag g w image_prompt camera_prompt t =
     (let client = get_oss_client (COLLECTION_ENDPOINT g) (REGION g)
      in case query_open_search w client (INDEX_NAME g) image_prompt 1 t of
           (Inl e, t1) \<Rightarrow> Some (Inl e, t1)
         | (Inr results, t1) \<Rightarrow>
             if results = [] then
               Some (Inr None,
                     t1 @ [Print (''Warning: No images found for '' @ [CHR 0x27] @ image_prompt
                                   @ [CHR 0x27] @ '', skipping video generation.'')])
             else
               (case file_key_of results of
                  Inl e \<Rightarrow> Some (Inl e, t1)
                | Inr file_key \<Rightarrow>
                    (case read_s3_text w (BUCKET g) file_key t1 of
                       (image_base64, t2) \<Rightarrow>
                         (let model_input =
                                build_model_input camera_prompt image_base64 6 24 ''1280x720'' 0
                          in case start_video_generation w (BUCKET g) model_input t2 of
                               (Inl e, t3) \<Rightarrow> Some (Inl e, t3)
                             | (Inr invoc, t3) \<Rightarrow>
                                 (case invocationArn invoc of
                                    None \<Rightarrow> Some (Inl (KeyError ''invocationArn''), t3)
                                  | Some arn \<Rightarrow> monitor_video_generation w arn t3)))))"

section \<open>Batch orchestration\<close>



section \<open>The inpainting notebook's vrag\<close>


section \<open>Poll answers\<close>

text \<open>
  A pending answer lets the loop go on: a response whose status is neither
  \<open>Completed\<close> nor \<open>Failed\<close>, with the \<open>submitTime\<close> that the progress line prints
  when the status is \<open>InProgress\<close>. A terminal answer is a response with status
  \<open>Completed\<close> or \<open>Failed\<close>.
\<close>

definition pending :: "error + async_invoke_status \<Rightarrow> bool" where
  "pending x =
     (case x of
        Inl e \<Rightarrow> False
      | Inr r \<Rightarrow>
          (case status r of
             None \<Rightarrow> False
           | Some s \<Rightarrow> s \<noteq> ''Completed'' \<and> s \<noteq> ''Failed''
                        \<and> (s = ''InProgress'' \<longrightarrow> submitTime r \<noteq> None)))"

definition terminal :: "error + async_invoke_status \<Rightarrow> bool" where
  "terminal x =
     (case x of
        Inl e \<Rightarrow> False
      | Inr r \<Rightarrow> status r = Some ''Completed'' \<or> status r = Some ''Failed'')"

abbreviation polls :: "event list \<Rightarrow> nat" where
  "polls t \<equiv> calls is_GetAsyncInvoke t"

text \<open>
  The events the monitor can add to the trace: a status poll, a sleep of 60 seconds, a
  printed line that starts with \<open>Job\<close> or with \<open>Video\<close>.
\<close>

definition monitor_event :: "event \<Rightarrow> bool" where
  "monitor_event e =
     (case e of
        GetAsyncInvoke a \<Rightarrow> True
      | Sleep n \<Rightarrow> n = 60
      | Print s \<Rightarrow> take 4 s = ''Job '' \<or> take 6 s = ''Video ''
      | _ \<Rightarrow> False)"

section \<open>The loop, one iteration at a time\<close>



section \<open>Sample responses and worlds\<close>

definition in_progress :: "string \<Rightarrow> async_invoke_status" where
  "in_progress tm =
     \<lparr>status = Some ''InProgress'', s3Uri = Some ''s3://videos'', submitTime = Some tm,
      failureMessage = None\<rparr>"

definition completed :: "string \<Rightarrow> async_invoke_status" where
  "completed uri =
     \<lparr>status = Some ''Completed'', s3Uri = Some uri, submitTime = Some ''09:00'',
      failureMessage = None\<rparr>"

definition failed :: "string \<Rightarrow> async_invoke_status" where
  "failed reason =
     \<lparr>status = Some ''Failed'', s3Uri = Some ''s3://videos'', submitTime = Some ''09:00'',
      failureMessage = Some reason\<rparr>"

definition polling_world :: "(nat \<Rightarrow> error + async_invoke_status) \<Rightarrow> world" where
  "polling_world answers =
     \<lparr>resize_and_encode = (\<lambda>n. Inl (OtherError ''offline'')),
      invoke_model = (\<lambda>n. Inl (OtherError ''offline'')),
      oss_search = (\<lambda>n. Inl (OtherError ''offline'')),
      s3_get_object = (\<lambda>n. Inl (OtherError ''offline'')),
      start_async_invoke = (\<lambda>n. Inl (OtherError ''offline'')),
      get_async_invoke = answers\<rparr>"

definition two_then_completed :: "nat \<Rightarrow> error + async_invoke_status" where
  "two_then_completed n =
     (if n < 2 then Inr (in_progress ''09:00'') else Inr (completed ''s3://videos/job1''))"

definition two_then_failed :: "nat \<Rightarrow> error + async_invoke_status" where
  "two_then_failed n =
     (if n < 2 then Inr (in_progress ''09:00'') else Inr (failed ''Invalid input image''))"

definition never_done :: "nat \<Rightarrow> error + async_invoke_status" where
  "never_done n = Inr (in_progress ''09:00'')"

definition failed_at_once :: "nat \<Rightarrow> error + async_invoke_status" where
  "failed_at_once n = Inr (failed ''Invalid input image'')"


section \<open>Reading the trace\<close>

text \<open>The model inputs of the jobs submitted, and the objects fetched, in order.\<close>

fun submitted :: "event list \<Rightarrow> json list" where
  "submitted [] = []"
| "submitted (StartAsyncInvoke model_id model_input output_uri # t) = model_input # submitted t"
| "submitted (e # t) = submitted t"

fun fetched :: "event list \<Rightarrow> (string \<times> string) list" where
  "fetched [] = []"
| "fetched (GetObject bucket key # t) = (bucket, key) # fetched t"
| "fetched (e # t) = fetched t"

text \<open>The n-th nearest-neighbour query answers with an empty list of hits.\<close>

definition lookup_missed :: "world \<Rightarrow> nat \<Rightarrow> bool" where
  "lookup_missed w n = (case oss_search w n of Inl e \<Rightarrow> False | Inr response \<Rightarrow> hits response = Some [])"


section \<open>Worlds in which nothing fails\<close>



section \<open>Sample index, globals and batches\<close>


definition shop_world ::
  "(nat \<Rightarrow> hit list) \<Rightarrow> (nat \<Rightarrow> error + async_invoke_status) \<Rightarrow> world" where
  "shop_world found answers =
     \<lparr>resize_and_encode = (\<lambda>n. Inl (OtherError ''offline'')),
      invoke_model = (\<lambda>n. Inr \<lparr>embedding = Some [3, 1, 4]\<rparr>),
      oss_search = (\<lambda>n. Inr \<lparr>hits = Some (found n)\<rparr>),
      s3_get_object = (\<lambda>n. Inr ''aGVsbG8=''),
      start_async_invoke = (\<lambda>n. Inr \<lparr>invocationArn = Some ''job1''\<rparr>),
      get_async_invoke = answers\<rparr>"

definition demo_globals :: globals where
  "demo_globals =
     \<lparr>COLLECTION_ENDPOINT = ''search.example'', REGION = ''us-east-1'',
      INDEX_NAME = ''vrag-index'', BUCKET = ''assets''\<rparr>"





section \<open>Properties of the job monitor\<close>
lemma calls_Nil [simp]: "calls P [] = 0"
  by (simp add: calls_def)

lemma calls_Cons [simp]: "calls P (e # t) = (if P e then Suc (calls P t) else calls P t)"
  by (simp add: calls_def)

lemma calls_append [simp]: "calls P (t @ u) = calls P t + calls P u"
  by (simp add: calls_def)

lemma pending_step:
  assumes "st \<noteq> ''Completed''" "st \<noteq> ''Failed''" "pending (get_async_invoke w (polls t))"
  shows "\<exists>st' ext. monitor_loop w arn st t = monitor_loop w arn st' (t @ ext)
           \<and> st' \<noteq> ''Completed'' \<and> st' \<noteq> ''Failed''
           \<and> polls ext = 1 \<and> calls is_Sleep ext = 1 \<and> list_all monitor_event ext"
proof -
  from assms(3) obtain r s where r: "get_async_invoke w (polls t) = Inr r" "status r = Some s"
    "s \<noteq> ''Completed''" "s \<noteq> ''Failed''" "s = ''InProgress'' \<longrightarrow> submitTime r \<noteq> None"
    by (auto simp: pending_def split: sum.splits option.splits)
  show ?thesis
  proof (cases "s = ''InProgress''")
    case True
    with r obtain tm where tm: "submitTime r = Some tm" by auto
    have "monitor_loop w arn st t = monitor_loop w arn s
            (t @ [GetAsyncInvoke arn, Print (''Job '' @ arn @ '' is in progress. Started at: '' @ tm), Sleep 60])"
      using assms(1,2) r True tm by (subst monitor_loop.simps) simp
    with r show ?thesis by (intro exI conjI) (assumption, simp_all add: monitor_event_def)
  next
    case False
    have "monitor_loop w arn st t = monitor_loop w arn s (t @ [GetAsyncInvoke arn, Sleep 60])"
      using assms(1,2) r False by (subst monitor_loop.simps) simp
    with r show ?thesis by (intro exI conjI) (assumption, simp_all add: monitor_event_def)
  qed
qed

lemma monitor_loop_run:
  assumes "st \<noteq> ''Completed''" "st \<noteq> ''Failed''" "polls t \<le> k"
    and "\<forall>i. polls t \<le> i \<and> i < k \<longrightarrow> pending (get_async_invoke w i)"
  shows "\<exists>st' ext. monitor_loop w arn st t = monitor_loop w arn st' (t @ ext)
           \<and> st' \<noteq> ''Completed'' \<and> st' \<noteq> ''Failed''
           \<and> polls (t @ ext) = k \<and> calls is_Sleep ext = k - polls t
           \<and> list_all monitor_event ext"
  using assms
proof (induction "k - polls t" arbitrary: t st)
  case 0
  then have "monitor_loop w arn st t = monitor_loop w arn st (t @ [])" "polls (t @ []) = k"
    by simp_all
  with 0 show ?case by (intro exI[of _ st] exI[of _ "[]"]) simp
next
  case (Suc n)
  then have "pending (get_async_invoke w (polls t))" by simp
  from pending_step[OF Suc.prems(1,2) this, of arn]
  obtain st1 ext1 where s1: "monitor_loop w arn st t = monitor_loop w arn st1 (t @ ext1)"
    "st1 \<noteq> ''Completed''" "st1 \<noteq> ''Failed''" "polls ext1 = 1" "calls is_Sleep ext1 = 1"
    "list_all monitor_event ext1" by (elim exE conjE)
  have n: "n = k - polls (t @ ext1)" and le: "polls (t @ ext1) \<le> k"
    using Suc.hyps(2) s1(4) by simp_all
  have pend: "\<forall>i. polls (t @ ext1) \<le> i \<and> i < k \<longrightarrow> pending (get_async_invoke w i)"
    using Suc.prems(4) by simp
  have "\<exists>st' ext. monitor_loop w arn st1 (t @ ext1) = monitor_loop w arn st' ((t @ ext1) @ ext)
           \<and> st' \<noteq> ''Completed'' \<and> st' \<noteq> ''Failed''
           \<and> polls ((t @ ext1) @ ext) = k \<and> calls is_Sleep ext = k - polls (t @ ext1)
           \<and> list_all monitor_event ext"
    by (rule Suc.hyps(1)[OF n s1(2) s1(3) le pend])
  then obtain st' ext where s2:
    "monitor_loop w arn st1 (t @ ext1) = monitor_loop w arn st' ((t @ ext1) @ ext)"
    "st' \<noteq> ''Completed''" "st' \<noteq> ''Failed''" "polls ((t @ ext1) @ ext) = k"
    "calls is_Sleep ext = k - polls (t @ ext1)" "list_all monitor_event ext"
    by (elim exE conjE)
  have "monitor_loop w arn st t = monitor_loop w arn st' (t @ (ext1 @ ext))"
    using s1(1) s2(1) by simp
  moreover have "polls (t @ (ext1 @ ext)) = k" using s2(4) by simp
  moreover have "calls is_Sleep (ext1 @ ext) = k - polls t"
    using s1(4,5) s2(5) Suc.hyps(2) by simp
  moreover have "list_all monitor_event (ext1 @ ext)" using s1(6) s2(6) by simp
  ultimately show ?case using s2(2,3) by (intro exI conjI)
qed


lemma monitor_loop_in_progress:
  assumes "st \<noteq> ''Completed''" "st \<noteq> ''Failed''"
    and "get_async_invoke w (polls t) = Inr r" "status r = Some ''InProgress''"
    and "submitTime r = Some tm"
  shows "monitor_loop w arn st t =
         monitor_loop w arn ''InProgress''
           (t @ [GetAsyncInvoke arn,
                 Print (''Job '' @ arn @ '' is in progress. Started at: '' @ tm), Sleep 60])"
  using assms by (subst monitor_loop.simps) simp

lemma monitor_loop_completed:
  assumes "st \<noteq> ''Completed''" "st \<noteq> ''Failed''"
    and "get_async_invoke w (polls t) = Inr r" "status r = Some ''Completed''"
    and "s3Uri r = Some u"
  shows "monitor_loop w arn st t =
         Some (Inr (Some (u @ ''/output.mp4'')),
               t @ [GetAsyncInvoke arn,
                    Print (''Video generation completed. Video available at: '' @ u
                           @ ''/output.mp4'')])"
  using assms by (subst monitor_loop.simps) simp

lemma monitor_loop_failed:
  assumes "st \<noteq> ''Completed''" "st \<noteq> ''Failed''"
    and "get_async_invoke w (polls t) = Inr r" "status r = Some ''Failed''"
    and "failureMessage r = Some m"
  shows "monitor_loop w arn st t =
         Some (Inl (RuntimeError ''Video generation failed.''),
               t @ [GetAsyncInvoke arn, Print (''Job '' @ arn @ '' failed. Reason: '' @ m)])"
  using assms by (subst monitor_loop.simps) simp

lemma list_all_Print_counts:
  "list_all is_Print ext \<Longrightarrow> polls ext = 0 \<and> calls is_Sleep ext = 0"
  by (induction ext) auto

lemma monitor_loop_not_pending:
  assumes "st \<noteq> ''Completed''" "st \<noteq> ''Failed''"
    and "\<not> pending (get_async_invoke w (polls t))"
  shows "\<exists>x ext. monitor_loop w arn st t = Some (x, t @ GetAsyncInvoke arn # ext)
           \<and> list_all is_Print ext \<and> x \<noteq> Inr None
           \<and> ((\<exists>r. get_async_invoke w (polls t) = Inr r \<and> status r = Some ''Failed'')
                \<longrightarrow> (\<exists>e. x = Inl e))
           \<and> list_all monitor_event ext"
proof (cases "get_async_invoke w (polls t)")
  case (Inl e)
  with assms(1,2) have "monitor_loop w arn st t = Some (Inl e, t @ GetAsyncInvoke arn # [])"
    by (subst monitor_loop.simps) simp
  then show ?thesis by (intro exI conjI) (assumption, simp_all)
next
  case (Inr r)
  show ?thesis
  proof (cases "status r")
    case None
    with Inr assms(1,2)
    have "monitor_loop w arn st t = Some (Inl (KeyError ''status''), t @ GetAsyncInvoke arn # [])"
      by (subst monitor_loop.simps) simp
    then show ?thesis by (intro exI conjI) (assumption, simp_all)
  next
    case (Some s)
    with Inr assms(3)
    have s: "s = ''Completed'' \<or> s = ''Failed'' \<or> (s = ''InProgress'' \<and> submitTime r = None)"
      by (auto simp: pending_def)
    show ?thesis
      using assms(1,2) Inr Some s
      apply (subst monitor_loop.simps)
      apply (cases "s3Uri r"; cases "failureMessage r")
         apply (auto simp: Let_def monitor_event_def)
      done
  qed
qed

lemma monitor_loop_first_stop:
  assumes "st \<noteq> ''Completed''" "st \<noteq> ''Failed''" "polls t \<le> k"
    and "\<not> pending (get_async_invoke w k)"
  shows "\<exists>j st' ext. j \<le> k \<and> \<not> pending (get_async_invoke w j)
           \<and> monitor_loop w arn st t = monitor_loop w arn st' (t @ ext)
           \<and> st' \<noteq> ''Completed'' \<and> st' \<noteq> ''Failed''
           \<and> polls (t @ ext) = j \<and> list_all monitor_event ext"
proof -
  define j where "j = (LEAST i. polls t \<le> i \<and> \<not> pending (get_async_invoke w i))"
  have ex: "polls t \<le> k \<and> \<not> pending (get_async_invoke w k)" using assms(3,4) by simp
  have j: "polls t \<le> j \<and> \<not> pending (get_async_invoke w j)"
    unfolding j_def
    by (rule LeastI[where P="\<lambda>i. polls t \<le> i \<and> \<not> pending (get_async_invoke w i)", OF ex])
  have jk: "j \<le> k"
    unfolding j_def
    by (rule Least_le[where P="\<lambda>i. polls t \<le> i \<and> \<not> pending (get_async_invoke w i)", OF ex])
  have before: "\<forall>i. polls t \<le> i \<and> i < j \<longrightarrow> pending (get_async_invoke w i)"
  proof (intro allI impI)
    fix i assume i: "polls t \<le> i \<and> i < j"
    show "pending (get_async_invoke w i)"
    proof (rule ccontr)
      assume "\<not> pending (get_async_invoke w i)"
      with i have "polls t \<le> i \<and> \<not> pending (get_async_invoke w i)" by simp
      then have "j \<le> i" unfolding j_def
        by (rule Least_le[where P="\<lambda>i. polls t \<le> i \<and> \<not> pending (get_async_invoke w i)"])
      with i show False by simp
    qed
  qed
  from monitor_loop_run[OF assms(1,2) conjunct1[OF j] before, of arn]
  obtain st' ext where r: "monitor_loop w arn st t = monitor_loop w arn st' (t @ ext)"
    "st' \<noteq> ''Completed''" "st' \<noteq> ''Failed''" "polls (t @ ext) = j"
    "calls is_Sleep ext = j - polls t" "list_all monitor_event ext"
    by (elim exE conjE)
  from jk conjunct2[OF j] r(1,2,3,4,6) show ?thesis by (intro exI conjI)
qed

lemma monitor_loop_stops:
  assumes "st \<noteq> ''Completed''" "st \<noteq> ''Failed''" "polls t \<le> k"
    and "\<not> pending (get_async_invoke w k)"
  shows "\<exists>x ext j. monitor_loop w arn st t = Some (x, t @ ext) \<and> polls (t @ ext) = Suc j
           \<and> j \<le> k \<and> list_all monitor_event ext \<and> x \<noteq> Inr None
           \<and> ((\<exists>r. get_async_invoke w j = Inr r \<and> status r = Some ''Failed'')
                \<longrightarrow> (\<exists>e. x = Inl e))
           \<and> (\<exists>pre post. ext = pre @ GetAsyncInvoke arn # post \<and> list_all is_Print post)"
proof -
  from monitor_loop_first_stop[OF assms, of arn]
  obtain j st' ext where r: "j \<le> k" "\<not> pending (get_async_invoke w j)"
    "monitor_loop w arn st t = monitor_loop w arn st' (t @ ext)"
    "st' \<noteq> ''Completed''" "st' \<noteq> ''Failed''" "polls (t @ ext) = j"
    "list_all monitor_event ext"
    by (elim exE conjE)
  from r(2,6) have "\<not> pending (get_async_invoke w (polls (t @ ext)))" by simp
  from monitor_loop_not_pending[OF r(4,5) this, of arn]
  obtain x ext' where f:
    "monitor_loop w arn st' (t @ ext) = Some (x, (t @ ext) @ GetAsyncInvoke arn # ext')"
    "list_all is_Print ext'" "x \<noteq> Inr None"
    "(\<exists>r. get_async_invoke w (polls (t @ ext)) = Inr r \<and> status r = Some ''Failed'')
       \<longrightarrow> (\<exists>e. x = Inl e)"
    "list_all monitor_event ext'"
    by (elim exE conjE)
  from list_all_Print_counts[OF f(2)] f(5)
  have c: "polls ext' = 0" "list_all monitor_event ext'" by simp_all
  have "monitor_loop w arn st t = Some (x, t @ (ext @ GetAsyncInvoke arn # ext'))"
    using r(3) f(1) by simp
  moreover have "polls (t @ (ext @ GetAsyncInvoke arn # ext')) = Suc j"
    using r(6) c(1) by simp
  moreover have "list_all monitor_event (ext @ GetAsyncInvoke arn # ext')"
    using r(7) c(2) by (simp add: monitor_event_def)
  moreover have "(\<exists>r. get_async_invoke w j = Inr r \<and> status r = Some ''Failed'')
       \<longrightarrow> (\<exists>e. x = Inl e)"
    using f(4) r(6) by simp
  moreover have "\<exists>pre post. ext @ GetAsyncInvoke arn # ext' = pre @ GetAsyncInvoke arn # post
                    \<and> list_all is_Print post"
    using f(2) by (intro exI[of _ ext] exI[of _ ext'] conjI refl)
  ultimately show ?thesis using r(1) f(3)
    by - (rule exI[of _ x], rule exI[of _ "ext @ GetAsyncInvoke arn # ext'"],
          rule exI[of _ j], intro conjI)
qed

lemma not_terminal_strings:
  "''InProgress'' \<noteq> ''Completed''" "''InProgress'' \<noteq> ''Failed''"
  by simp_all

lemma terminal_not_pending: "terminal x \<Longrightarrow> \<not> pending x"
  by (auto simp: terminal_def pending_def split: sum.splits option.splits)

text \<open>
  Claim C5. When the polls before index \<open>k\<close> all answer with a non-terminal status and
  poll \<open>k\<close> answers \<open>Completed\<close> with output location \<open>u\<close>, the monitor returns
  \<open>u\<close> followed by \<open>/output.mp4\<close>, right after poll \<open>k\<close>; that string is never empty.
\<close>
theorem monitor_completed_location:
  assumes "polls t \<le> k"
    and "\<forall>i. polls t \<le> i \<and> i < k \<longrightarrow> pending (get_async_invoke w i)"
    and "get_async_invoke w k = Inr r" "status r = Some ''Completed''" "s3Uri r = Some u"
  shows "\<exists>ext. monitor_video_generation w arn t =
                 Some (Inr (Some (u @ ''/output.mp4'')), t @ ext)
           \<and> polls (t @ ext) = Suc k \<and> u @ ''/output.mp4'' \<noteq> []"
proof -
  from monitor_loop_run[OF not_terminal_strings assms(1,2), of arn]
  obtain st' ext where r: "monitor_loop w arn ''InProgress'' t = monitor_loop w arn st' (t @ ext)"
    "st' \<noteq> ''Completed''" "st' \<noteq> ''Failed''" "polls (t @ ext) = k"
    by (elim exE conjE)
  from assms(3) r(4) have "get_async_invoke w (polls (t @ ext)) = Inr r" by simp
  from monitor_loop_completed[OF r(2,3) this assms(4,5), of arn] r(1)
  have "monitor_video_generation w arn t =
        Some (Inr (Some (u @ ''/output.mp4'')),
              t @ (ext @ [GetAsyncInvoke arn,
                    Print (''Video generation completed. Video available at: '' @ u
                           @ ''/output.mp4'')]))"
    by (simp add: monitor_video_generation_def)
  moreover have "polls (t @ (ext @ [GetAsyncInvoke arn,
                    Print (''Video generation completed. Video available at: '' @ u
                           @ ''/output.mp4'')])) = Suc k"
    using r(4) by simp
  moreover have "u @ ''/output.mp4'' \<noteq> []" by simp
  ultimately show ?thesis by (intro exI conjI)
qed

text \<open>Claim C5, witness: two polls in progress, the third completed.\<close>
theorem monitor_completed_location_witness:
  "\<exists>ext. monitor_video_generation (polling_world two_then_completed) ''job1'' [] =
            Some (Inr (Some ''s3://videos/job1/output.mp4''), ext)
         \<and> polls ext = 3"
  using monitor_completed_location[of "[]" 2 "polling_world two_then_completed"
          "completed ''s3://videos/job1''" "''s3://videos/job1''" "''job1''"]
  by (simp add: polling_world_def two_then_completed_def completed_def in_progress_def
        pending_def)

lemma monitor_event_no_submit:
  "list_all monitor_event ext \<Longrightarrow> calls is_StartAsyncInvoke ext = 0"
  by (induction ext) (auto simp: monitor_event_def split: event.splits)

text \<open>
  Claim C1, as amended. When the polls before index \<open>k\<close> all answer with a non-terminal
  status and poll \<open>k\<close> answers \<open>Failed\<close> with failure message \<open>m\<close>, the monitor prints
  the message and raises \<open>RuntimeError\<close> with the fixed text \<open>Video generation failed.\<close>;
  poll \<open>k\<close> is its last call, and it submits no job.
\<close>
theorem monitor_failed_raises:
  assumes "polls t \<le> k"
    and "\<forall>i. polls t \<le> i \<and> i < k \<longrightarrow> pending (get_async_invoke w i)"
    and "get_async_invoke w k = Inr r" "status r = Some ''Failed''" "failureMessage r = Some m"
  shows "\<exists>ext. monitor_video_generation w arn t =
                 Some (Inl (RuntimeError ''Video generation failed.''),
                       t @ ext @ [GetAsyncInvoke arn,
                                  Print (''Job '' @ arn @ '' failed. Reason: '' @ m)])
           \<and> polls (t @ ext) = k \<and> calls is_StartAsyncInvoke ext = 0"
proof -
  from monitor_loop_run[OF not_terminal_strings assms(1,2), of arn]
  obtain st' ext where r: "monitor_loop w arn ''InProgress'' t = monitor_loop w arn st' (t @ ext)"
    "st' \<noteq> ''Completed''" "st' \<noteq> ''Failed''" "polls (t @ ext) = k"
    "calls is_Sleep ext = k - polls t" "list_all monitor_event ext"
    by (elim exE conjE)
  from assms(3) r(4) have "get_async_invoke w (polls (t @ ext)) = Inr r" by simp
  from monitor_loop_failed[OF r(2,3) this assms(4,5), of arn] r(1)
  have "monitor_video_generation w arn t =
        Some (Inl (RuntimeError ''Video generation failed.''),
              t @ ext @ [GetAsyncInvoke arn, Print (''Job '' @ arn @ '' failed. Reason: '' @ m)])"
    by (simp add: monitor_video_generation_def)
  with r(4) monitor_event_no_submit[OF r(6)] show ?thesis by (intro exI conjI)
qed

text \<open>Claim C1, witness of the amended statement: two polls in progress, the third failed.\<close>
theorem monitor_failed_raises_witness:
  "\<exists>ext. monitor_video_generation (polling_world two_then_failed) ''job1'' [] =
            Some (Inl (RuntimeError ''Video generation failed.''),
                  ext @ [GetAsyncInvoke ''job1'',
                         Print ''Job job1 failed. Reason: Invalid input image''])
         \<and> polls ext = 2 \<and> calls is_StartAsyncInvoke ext = 0"
  using monitor_failed_raises[of "[]" 2 "polling_world two_then_failed"
          "failed ''Invalid input image''" "''Invalid input image''" "''job1''"]
  by (simp add: polling_world_def two_then_failed_def failed_def in_progress_def pending_def)

text \<open>
  Claim C1, counterexample. The first poll answers \<open>Failed\<close> with the reason
  \<open>Invalid input image\<close>: the reason is printed, and the raised error's text does not
  contain it.
\<close>
theorem monitor_failed_error_lacks_reason:
  "monitor_video_generation (polling_world failed_at_once) ''job1'' [] =
     Some (Inl (RuntimeError ''Video generation failed.''),
           [GetAsyncInvoke ''job1'', Print ''Job job1 failed. Reason: Invalid input image''])
   \<and> \<not> sublist ''Invalid input image'' (str_of_error (RuntimeError ''Video generation failed.''))"
proof
  show "monitor_video_generation (polling_world failed_at_once) ''job1'' [] =
     Some (Inl (RuntimeError ''Video generation failed.''),
           [GetAsyncInvoke ''job1'', Print ''Job job1 failed. Reason: Invalid input image''])"
    unfolding monitor_video_generation_def
    by (subst monitor_loop.simps)
       (simp add: polling_world_def failed_at_once_def failed_def)
  show "\<not> sublist ''Invalid input image'' (str_of_error (RuntimeError ''Video generation failed.''))"
    by code_simp
qed

text \<open>
  Claim C6. Whatever the polls answer, if poll \<open>k\<close> (not yet made) answers with a terminal
  status, the monitor returns or raises and has made no poll beyond \<open>k\<close>.
\<close>
theorem monitor_no_poll_after_terminal:
  assumes "terminal (get_async_invoke w k)" and "polls t \<le> k"
  shows "\<exists>x ext. monitor_video_generation w arn t = Some (x, t @ ext)
           \<and> polls (t @ ext) \<le> Suc k"
proof -
  from monitor_loop_stops[OF not_terminal_strings assms(2) terminal_not_pending[OF assms(1)], of arn]
  obtain x ext j where "monitor_loop w arn ''InProgress'' t = Some (x, t @ ext)"
    "polls (t @ ext) = Suc j" "j \<le> k" by (elim exE conjE)
  then have "monitor_loop w arn ''InProgress'' t = Some (x, t @ ext)"
    "polls (t @ ext) \<le> Suc k" by simp_all
  then show ?thesis unfolding monitor_video_generation_def by (intro exI conjI)
qed

text \<open>Claim C6, witness: the third poll answers \<open>Failed\<close>; three polls at most are made.\<close>
theorem monitor_no_poll_after_terminal_witness:
  "\<exists>x ext. monitor_video_generation (polling_world two_then_failed) ''job1'' [] = Some (x, ext)
           \<and> polls ext \<le> 3"
  using monitor_no_poll_after_terminal[of "polling_world two_then_failed" 2 "[]" "''job1''"]
  by (simp add: polling_world_def two_then_failed_def failed_def terminal_def)

text \<open>
  Claim C7. With the answers \<open>InProgress\<close>, \<open>InProgress\<close>, \<open>Completed\<close> the monitor
  makes exactly three polls, sleeps 60 seconds after the first and after the second and
  not after the third, and returns the location after the third poll.
\<close>
theorem monitor_three_polls:
  assumes "get_async_invoke w (polls t) = Inr r0"
      "status r0 = Some ''InProgress''" "submitTime r0 = Some tm0"
    and "get_async_invoke w (Suc (polls t)) = Inr r1"
      "status r1 = Some ''InProgress''" "submitTime r1 = Some tm1"
    and "get_async_invoke w (Suc (Suc (polls t))) = Inr r2"
      "status r2 = Some ''Completed''" "s3Uri r2 = Some u"
  shows "monitor_video_generation w arn t =
           Some (Inr (Some (u @ ''/output.mp4'')),
                 t @ [GetAsyncInvoke arn,
                      Print (''Job '' @ arn @ '' is in progress. Started at: '' @ tm0),
                      Sleep 60,
                      GetAsyncInvoke arn,
                      Print (''Job '' @ arn @ '' is in progress. Started at: '' @ tm1),
                      Sleep 60,
                      GetAsyncInvoke arn,
                      Print (''Video generation completed. Video available at: '' @ u
                             @ ''/output.mp4'')])"
proof -
  let ?t1 = "t @ [GetAsyncInvoke arn,
                  Print (''Job '' @ arn @ '' is in progress. Started at: '' @ tm0), Sleep 60]"
  let ?t2 = "?t1 @ [GetAsyncInvoke arn,
                  Print (''Job '' @ arn @ '' is in progress. Started at: '' @ tm1), Sleep 60]"
  have p1: "polls ?t1 = Suc (polls t)" and p2: "polls ?t2 = Suc (Suc (polls t))" by simp_all
  have "monitor_loop w arn ''InProgress'' t = monitor_loop w arn ''InProgress'' ?t1"
    by (rule monitor_loop_in_progress[OF not_terminal_strings assms(1,2,3)])
  also have "\<dots> = monitor_loop w arn ''InProgress'' ?t2"
    by (rule monitor_loop_in_progress[OF not_terminal_strings _ assms(5,6)])
       (simp only: p1 assms(4))
  also have "\<dots> = Some (Inr (Some (u @ ''/output.mp4'')),
                 ?t2 @ [GetAsyncInvoke arn,
                      Print (''Video generation completed. Video available at: '' @ u
                             @ ''/output.mp4'')])"
    by (rule monitor_loop_completed[OF not_terminal_strings _ assms(8,9)])
       (simp only: p2 assms(7))
  finally show ?thesis by (simp add: monitor_video_generation_def)
qed

text \<open>Claim C7, witness: the whole trace of such a run.\<close>
theorem monitor_three_polls_witness:
  "monitor_video_generation (polling_world two_then_completed) ''job1'' [] =
     Some (Inr (Some ''s3://videos/job1/output.mp4''),
           [GetAsyncInvoke ''job1'', Print ''Job job1 is in progress. Started at: 09:00'',
            Sleep 60,
            GetAsyncInvoke ''job1'', Print ''Job job1 is in progress. Started at: 09:00'',
            Sleep 60,
            GetAsyncInvoke ''job1'',
            Print ''Video generation completed. Video available at: s3://videos/job1/output.mp4''])"
  using monitor_three_polls[of "polling_world two_then_completed" "[]"
          "in_progress ''09:00''" "''09:00''" "in_progress ''09:00''" "''09:00''"
          "completed ''s3://videos/job1''" "''s3://videos/job1''" "''job1''"]
  by (simp add: polling_world_def two_then_completed_def completed_def in_progress_def)











section \<open>Effects of the service calls on the trace\<close>

lemma submitted_append [simp]: "submitted (t @ u) = submitted t @ submitted u"
  by (induction t rule: submitted.induct) simp_all

lemma fetched_append [simp]: "fetched (t @ u) = fetched t @ fetched u"
  by (induction t rule: fetched.induct) simp_all



lemma get_titan_text_effect:
  assumes "get_titan_multimodal_embedding w None description dimension t = (r, t1)"
  shows "\<exists>e. t1 = t @ [e] \<and> is_InvokeModel e \<and> r = invoke_model w (calls is_InvokeModel t)"
  using assms
  by (auto simp: get_titan_multimodal_embedding_def Let_def split: sum.splits)

lemma query_open_search_effect:
  assumes "query_open_search w client index_name prompt top_k t = (r, t1)"
  shows "\<exists>ext. t1 = t @ ext \<and> submitted ext = [] \<and> fetched ext = []
           \<and> calls is_StartAsyncInvoke ext = 0 \<and> polls ext = 0
           \<and> (\<forall>hs. r = Inr hs \<longrightarrow>
                 calls is_Search ext = 1 \<and> (hs = [] \<longleftrightarrow> lookup_missed w (calls is_Search t)))"
proof -
  obtain r0 t0 where g: "get_titan_multimodal_embedding w None (Some prompt) 1024 t = (r0, t0)"
    by (cases "get_titan_multimodal_embedding w None (Some prompt) 1024 t")
  from get_titan_text_effect[OF g] obtain e where e: "t0 = t @ [e]" "is_InvokeModel e"
    by (elim exE conjE)
  then have c: "calls is_Search t0 = calls is_Search t" by (cases e) simp_all
  show ?thesis
  proof (cases "\<exists>emb v. r0 = Inr emb \<and> embedding emb = Some v")
    case False
    with assms g have "t1 = t0" "\<forall>hs. r \<noteq> Inr hs"
      by (auto simp: query_open_search_def split: sum.splits option.splits)
    with e show ?thesis by (cases e) (auto intro!: exI[of _ "[e]"])
  next
    case True
    then obtain emb v where v: "r0 = Inr emb" "embedding emb = Some v" by (elim exE conjE)
    let ?s = "Search client index_name \<lparr>query_size = top_k, source_exclude = [''image_vector''],
                                   knn_vector = v, knn_k = top_k\<rparr>"
    from assms g v c have t1: "t1 = t @ [e, ?s]"
      and r: "\<forall>hs. r = Inr hs \<longrightarrow> (hs = [] \<longleftrightarrow> lookup_missed w (calls is_Search t))"
      using e(1)
      by (auto simp: query_open_search_def Let_def lookup_missed_def split: sum.splits option.splits)
    with e(2) show ?thesis by (cases e) (auto intro!: exI[of _ "[e, ?s]"])
  qed
qed






section \<open>The two payload builders\<close>

text \<open>
  Claim C9. The two \<open>build_model_input\<close> functions return the same payload when
  \<open>image_base64\<close> is a non-empty string; when it is \<open>None\<close> or empty the payloads
  differ: the text-and-image version has an empty \<open>images\<close> list under
  \<open>textToVideoParams\<close>, the text-only version has no \<open>images\<close> key.
\<close>
theorem build_model_input_versions:
  "(image_base64 \<noteq> None \<and> image_base64 \<noteq> Some [] \<longrightarrow>
      build_model_input prompt image_base64 duration fps resolution seed
      = build_model_input_text_only prompt image_base64 duration fps resolution seed)
   \<and> (image_base64 = None \<or> image_base64 = Some [] \<longrightarrow>
      build_model_input prompt image_base64 duration fps resolution seed
      \<noteq> build_model_input_text_only prompt image_base64 duration fps resolution seed
      \<and> Option.bind (lookup (build_model_input prompt image_base64 duration fps resolution seed)
            ''textToVideoParams'') (\<lambda>d. lookup d ''images'') = Some (JList [])
      \<and> Option.bind (lookup (build_model_input_text_only prompt image_base64 duration fps
            resolution seed) ''textToVideoParams'') (\<lambda>d. lookup d ''images'') = None)"
proof (cases image_base64)
  case None
  then show ?thesis
    by (simp add: build_model_input_def build_model_input_text_only_def)
next
  case (Some b)
  then show ?thesis
    by (cases "b = []")
       (simp_all add: build_model_input_def build_model_input_text_only_def set_nested_def)
qed

text \<open>Claim C9, witness: an image, no image, and an empty image string.\<close>
theorem build_model_input_versions_witness:
  "build_model_input ''a dog runs'' (Some ''aGVsbG8='') 6 24 ''1280x720'' 0
     = build_model_input_text_only ''a dog runs'' (Some ''aGVsbG8='') 6 24 ''1280x720'' 0
   \<and> build_model_input ''a dog runs'' None 6 24 ''1280x720'' 0
     \<noteq> build_model_input_text_only ''a dog runs'' None 6 24 ''1280x720'' 0
   \<and> build_model_input ''a dog runs'' (Some []) 6 24 ''1280x720'' 0
     \<noteq> build_model_input_text_only ''a dog runs'' (Some []) 6 24 ''1280x720'' 0"
  using build_model_input_versions[of "Some ''aGVsbG8=''" "''a dog runs''" 6 24 "''1280x720''" 0]
    build_model_input_versions[of None "''a dog runs''" 6 24 "''1280x720''" 0]
    build_model_input_versions[of "Some []" "''a dog runs''" 6 24 "''1280x720''" 0]
  by simp

section \<open>Properties of the two vrag functions\<close>

text \<open>
  Claim C4. When the nearest-neighbour query for the concept prompt returns an empty
  list, \<open>vrag\<close> returns the skip marker \<open>None\<close> and has made no call to the generation
  service: no job submission and no status poll.
\<close>
theorem vrag_skips_on_empty_results:
  assumes "query_open_search w (get_oss_client (COLLECTION_ENDPOINT g) (REGION g))
             (INDEX_NAME g) image_prompt 1 t = (Inr [], t1)"
  shows "\<exists>t'. vrag g w image_prompt camera_prompt t = Some (Inr None, t')
           \<and> calls is_StartAsyncInvoke t' = calls is_StartAsyncInvoke t
           \<and> polls t' = polls t \<and> submitted t' = submitted t"
proof -
  let ?p = "Print (''Warning: No images found for '' @ [CHR 0x27] @ image_prompt
                    @ [CHR 0x27] @ '', skipping video generation.'')"
  from query_open_search_effect[OF assms]
  obtain ext where e: "t1 = t @ ext" "submitted ext = []" "calls is_StartAsyncInvoke ext = 0"
    "polls ext = 0" by (elim exE conjE)
  have "vrag g w image_prompt camera_prompt t = Some (Inr None, t1 @ [?p])"
    using assms by (simp add: vrag_def)
  moreover have "calls is_StartAsyncInvoke (t1 @ [?p]) = calls is_StartAsyncInvoke t"
    "polls (t1 @ [?p]) = polls t" "submitted (t1 @ [?p]) = submitted t"
    using e by simp_all
  ultimately show ?thesis by (intro exI conjI)
qed

text \<open>Claim C4, witness: an index that holds nothing.\<close>
theorem vrag_skips_on_empty_results_witness:
  "\<exists>t'. vrag demo_globals (shop_world (\<lambda>n. []) never_done) ''nonexistent object''
            ''Camera pans left'' [] = Some (Inr None, t')
         \<and> calls is_StartAsyncInvoke t' = 0 \<and> polls t' = 0 \<and> submitted t' = []"
  using vrag_skips_on_empty_results[of "shop_world (\<lambda>n. []) never_done" demo_globals
          "''nonexistent object''" "[]"
          "[InvokeModel ''amazon.titan-embed-image-v1''
              \<lparr>inputImage = None, inputText = Some ''nonexistent object'',
               outputEmbeddingLength = 1024\<rparr>,
            Search \<lparr>host = ''search.example'', port = 443, region = ''us-east-1''\<rparr> ''vrag-index''
              \<lparr>query_size = 1, source_exclude = [''image_vector''], knn_vector = [3, 1, 4],
               knn_k = 1\<rparr>]"
          "''Camera pans left''"]
  by (simp add: query_open_search_def get_titan_multimodal_embedding_def get_oss_client_def
        shop_world_def demo_globals_def)




section \<open>Properties of the batch loop\<close>


subsection \<open>Sample evaluations\<close>





subsection \<open>Two sample runs of the batch\<close>



subsection \<open>What the loop collects\<close>




subsection \<open>The batch in a cooperative world\<close>







subsection \<open>The claims on the batch\<close>







end
